theory Spec2Isabelle
  imports Complex_Main "HOL-Library.AList"
begin

section \<open>TJ-II HIBP-1 geometry: a model of \<open>define_geometry.py\<close>\<close>

text \<open>
  The module has one function, \<open>define_geometry(config)\<close>.  It creates a \<open>Geometry\<close>
  object, fills in plasma parameters, the angle triples and the coordinates of the elements
  of the primary and of the secondary beamline, the chamber contours, loads two tables with
  \<open>np.loadtxt\<close>, and finally runs a loop over the coordinate dictionary.

  Python floats are modelled by \<^typ>\<open>real\<close>: the arithmetic of the model is exact, rounding is
  not modelled.  A numpy array of three floats is a triple; the coordinate dictionary refers
  to its arrays through addresses into a store, because the source stores one array under
  two names and later updates arrays in place.
\<close>

subsection \<open>Vectors\<close>

type_synonym vec3 = "real \<times> real \<times> real"

fun vadd :: "vec3 \<Rightarrow> vec3 \<Rightarrow> vec3" where
  "vadd (x1, y1, z1) (x2, y2, z2) = (x1 + x2, y1 + y2, z1 + z2)"

fun vscale :: "real \<Rightarrow> vec3 \<Rightarrow> vec3" where
  "vscale c (x, y, z) = (c * x, c * y, c * z)"

fun vdist :: "vec3 \<Rightarrow> vec3 \<Rightarrow> real" where
  "vdist (x1, y1, z1) (x2, y2, z2) = sqrt ((x1 - x2)\<^sup>2 + (y1 - y2)\<^sup>2 + (z1 - z2)\<^sup>2)"

subsection \<open>Errors and dictionaries\<close>

text \<open>
  The exceptions the function can meet: a dictionary lookup of a missing key, and the three
  ways \<open>np.loadtxt\<close> fails (no such file, a file that cannot be read, a row that is not
  numeric or has the wrong number of columns).  Each carries the key or the file name.
\<close>

datatype error =
    KeyError string
  | FileNotFoundError string
  | PermissionError string
  | ValueError string

definition bind_err :: "error + 'a \<Rightarrow> ('a \<Rightarrow> error + 'b) \<Rightarrow> error + 'b" where
  "bind_err m f = (case m of Inl e \<Rightarrow> Inl e | Inr x \<Rightarrow> f x)"

text \<open>
  A Python dict keeps insertion order, and the last loop of the function iterates over the
  keys: a dict is an association list with distinct keys, \<open>d[k] = v\<close> replaces in place or
  appends.
\<close>

type_synonym 'a dict = "(string \<times> 'a) list"

definition getitem :: "'a dict \<Rightarrow> string \<Rightarrow> error + 'a" where
  "getitem d k = (case map_of d k of None \<Rightarrow> Inl (KeyError k) | Some v \<Rightarrow> Inr v)"

definition setitem :: "'a dict \<Rightarrow> string \<Rightarrow> 'a \<Rightarrow> 'a dict" where
  "setitem d k v = AList.update k v d"

definition keys :: "'a dict \<Rightarrow> string list" where
  "keys d = map fst d"

fun dict_update :: "'a dict \<Rightarrow> 'a dict \<Rightarrow> 'a dict" where
  "dict_update d [] = d"
| "dict_update d ((k, v) # other) = dict_update (setitem d k v) other"

subsection \<open>The Geometry object\<close>

text \<open>
  \<open>origin\<close> and the field \<open>written\<close> are not attributes of the Python object: they record,
  for every write to \<open>r_dict\<close>, whether the entry was assigned directly
  (\<open>geom.r_dict[name] = ...\<close>) or computed by \<open>add_coords\<close> from a parent, a distance and an
  angle triple.  No operation reads them.
\<close>

type_synonym addr = nat

datatype origin = Direct | Derived string real vec3

record Geometry =
  R :: real
  r_plasma :: real
  elon :: real
  angles_dict :: "vec3 dict"
  r_dict :: "addr dict"
  arrays :: "vec3 list"
  chamb_ent :: "(real \<times> real) list"
  chamb_ext :: "(real \<times> real) list"
  chamb :: "(real \<times> real) list"
  camera :: "real list list"
  sep :: "real list list"
  written :: "(string \<times> origin) list"

text \<open>
  Modelled from the spec: the class \<open>hibplib.Geometry\<close> is not among the sources.  The spec's
  data model lists what the aggregate holds (scalar plasma parameters, a mapping from element
  name to angle triple, a mapping from element name to coordinate, chamber point lists, the
  two loaded contours); a new object has empty mappings and lists.
\<close>

definition Geometry_init :: Geometry where
  "Geometry_init =
     \<lparr>R = 0, r_plasma = 0, elon = 0, angles_dict = [], r_dict = [], arrays = [],
      chamb_ent = [], chamb_ext = [], chamb = [], camera = [], sep = [], written = []\<rparr>"

text \<open>The coordinate stored under a name, if any: the array the entry points to.\<close>

definition coord :: "Geometry \<Rightarrow> string \<Rightarrow> vec3 option" where
  "coord g name = (case map_of (r_dict g) name of None \<Rightarrow> None | Some a \<Rightarrow> Some (arrays g ! a))"

definition coord_dist :: "Geometry \<Rightarrow> string \<Rightarrow> string \<Rightarrow> real option" where
  "coord_dist g child parent =
     (case coord g child of None \<Rightarrow> None
      | Some c \<Rightarrow> (case coord g parent of None \<Rightarrow> None | Some p \<Rightarrow> Some (vdist c p)))"

text \<open>\<open>geom.r_dict[name] = np.array([x, y, z])\<close>: a new array, stored under the name.\<close>

definition set_coord :: "string \<Rightarrow> vec3 \<Rightarrow> Geometry \<Rightarrow> Geometry" where
  "set_coord name v g =
     g\<lparr>r_dict := setitem (r_dict g) name (length (arrays g)),
       arrays := arrays g @ [v],
       written := written g @ [(name, Direct)]\<rparr>"

text \<open>
  \<open>geom.r_dict[name] = geom.r_dict[other]\<close>: the entry of \<open>name\<close> is the very array of
  \<open>other\<close>, no copy is made.
\<close>

definition alias_coord :: "string \<Rightarrow> string \<Rightarrow> Geometry \<Rightarrow> error + Geometry" where
  "alias_coord name other g =
     bind_err (getitem (r_dict g) other) (\<lambda>a.
       Inr (g\<lparr>r_dict := setitem (r_dict g) name a,
              written := written g @ [(name, Direct)]\<rparr>))"

subsection \<open>Directions and \<open>add_coords\<close>\<close>

definition rad :: "real \<Rightarrow> real" where
  "rad deg = deg * pi / 180"

fun rot_x :: "real \<Rightarrow> vec3 \<Rightarrow> vec3" where
  "rot_x t (x, y, z) = (x, y * cos t - z * sin t, y * sin t + z * cos t)"

fun rot_y :: "real \<Rightarrow> vec3 \<Rightarrow> vec3" where
  "rot_y t (x, y, z) = (x * cos t + z * sin t, y, z * cos t - x * sin t)"

fun rot_z :: "real \<Rightarrow> vec3 \<Rightarrow> vec3" where
  "rot_z t (x, y, z) = (x * cos t - y * sin t, x * sin t + y * cos t, z)"

text \<open>
  Modelled from the spec: \<open>Geometry.add_coords\<close> of \<open>hibplib\<close> and the direction it computes
  are not among the sources.  The spec: "given a parent point P, a direction triple (alpha,
  beta, gamma), and a scalar distance d, compute the new point as P translated by d along the
  direction encoded by rotating a reference axis through alpha/beta/gamma", the angles being
  "successive rotations", in degrees.  The reference axis is taken to be the X axis, rotated
  by gamma about X, then by alpha about Z, then by beta about Y.
\<close>

fun direction :: "vec3 \<Rightarrow> vec3" where
  "direction (alpha, beta, gamma) =
     rot_y (rad beta) (rot_z (rad alpha) (rot_x (rad gamma) (1, 0, 0)))"

definition calc_vector :: "real \<Rightarrow> vec3 \<Rightarrow> vec3" where
  "calc_vector d angles = vscale d (direction angles)"

text \<open>
  Modelled from the spec: \<open>add_coords(name, ref_point, dist, angles)\<close> looks the parent up by
  its name in the coordinate mapping (a missing name raises \<open>KeyError\<close>), and stores the new
  point, a new array, under \<open>name\<close>.
\<close>

definition add_coords :: "string \<Rightarrow> string \<Rightarrow> real \<Rightarrow> vec3 \<Rightarrow> Geometry \<Rightarrow> error + Geometry" where
  "add_coords name ref_point d angles g =
     bind_err (getitem (r_dict g) ref_point) (\<lambda>a.
       Inr (g\<lparr>r_dict := setitem (r_dict g) name (length (arrays g)),
              arrays := arrays g @ [vadd (arrays g ! a) (calc_vector d angles)],
              written := written g @ [(name, Derived ref_point d angles)]\<rparr>))"

text \<open>
  The statement \<open>geom.add_coords(name, ref_point, dist, geom.angles_dict[key])\<close>: the angle
  triple is looked up first, then the call is made.
\<close>

definition add_coords_with :: "string \<Rightarrow> string \<Rightarrow> real \<Rightarrow> string \<Rightarrow> Geometry \<Rightarrow> error + Geometry" where
  "add_coords_with name ref_point d key g =
     bind_err (getitem (angles_dict g) key) (\<lambda>angles. add_coords name ref_point d angles g)"

text \<open>A block of statements runs in order and stops at the first exception.\<close>

fun run_steps :: "(Geometry \<Rightarrow> error + Geometry) list \<Rightarrow> Geometry \<Rightarrow> error + Geometry" where
  "run_steps [] g = Inr g"
| "run_steps (s # ss) g = bind_err (s g) (run_steps ss)"

subsection \<open>Data files and \<open>np.loadtxt\<close>\<close>

text \<open>
  The file system is a map from file names to files.  A file either cannot be read, or is a
  text whose data rows are given as lists of fields; a field is a number or anything else.
  \<open>np.loadtxt\<close> raises \<open>FileNotFoundError\<close> for a missing file, an \<open>OSError\<close> (here
  \<open>PermissionError\<close>) for a file it cannot read, and \<open>ValueError\<close> for a field that is not a
  number or a row whose number of columns differs from the first row's; otherwise it returns
  the table of numbers.
\<close>

datatype field = Number real | Garbage

datatype datafile = Unreadable | Text "field list list"

type_synonym filesystem = "string \<Rightarrow> datafile option"

fun is_garbage :: "field \<Rightarrow> bool" where
  "is_garbage Garbage = True"
| "is_garbage (Number x) = False"

fun number_of :: "field \<Rightarrow> real" where
  "number_of (Number x) = x"
| "number_of Garbage = 0"

fun ragged :: "field list list \<Rightarrow> bool" where
  "ragged [] = False"
| "ragged (r # rs) = list_ex (\<lambda>q. length q \<noteq> length r) rs"

definition malformed :: "field list list \<Rightarrow> bool" where
  "malformed rows = (list_ex (list_ex is_garbage) rows \<or> ragged rows)"

definition loadtxt :: "filesystem \<Rightarrow> string \<Rightarrow> error + real list list" where
  "loadtxt fs fname =
     (case fs fname of
        None \<Rightarrow> Inl (FileNotFoundError fname)
      | Some Unreadable \<Rightarrow> Inl (PermissionError fname)
      | Some (Text rows) \<Rightarrow>
          if malformed rows then Inl (ValueError fname) else Inr (map (map number_of) rows))"

subsection \<open>The constants of \<open>define_geometry\<close>\<close>

definition dalpha :: real where "dalpha = - 1.2"
definition dbeta :: real where "dbeta = 11.0"
definition alpha_prim :: real where "alpha_prim = 75.2 + dalpha"
definition beta_prim :: real where "beta_prim = - 22 + dbeta"
definition gamma_prim :: real where "gamma_prim = 0"

definition prim_angles :: "vec3 dict" where
  "prim_angles =
     [(''r0'', (alpha_prim, beta_prim, gamma_prim)),
      (''A1'', (alpha_prim, beta_prim, gamma_prim)),
      (''B1'', (alpha_prim, beta_prim, gamma_prim)),
      (''B2'', (alpha_prim, beta_prim, gamma_prim)),
      (''A2'', (alpha_prim, beta_prim, gamma_prim))]"

definition xport_in :: real where "xport_in = 1.34817"
definition yport_in :: real where "yport_in = 0.8658"
definition zport_in :: real where "zport_in = 0"

definition dist_A2 :: real where "dist_A2 = 0.2305"
definition dist_B2 :: real where "dist_B2 = 0.19"
definition dist_B1 :: real where "dist_B1 = 0.39"
definition dist_A1 :: real where "dist_A1 = 0.18"
definition dist_r0 :: real where "dist_r0 = 0.2"

definition xport_out :: real where "xport_out = 2.3786"
definition yport_out :: real where "yport_out = - 0.38"
definition zport_out :: real where "zport_out = - 0.03677 + 0.02"

definition alpha_sec :: real where "alpha_sec = 0"
definition beta_sec :: real where "beta_sec = 13.15"
definition gamma_sec :: real where "gamma_sec = 0"

definition sec_angles :: "vec3 dict" where
  "sec_angles =
     [(''aim'', (alpha_sec, beta_sec, gamma_sec)),
      (''A3'', (alpha_sec, beta_sec, gamma_sec)),
      (''B3'', (alpha_sec, beta_sec, gamma_sec)),
      (''an'', (alpha_sec, beta_sec, gamma_sec))]"

definition dist_aim :: real where "dist_aim = 0.166"
definition dist_B3 :: real where "dist_B3 = 0.222"
definition dist_A3 :: real where "dist_A3 = 0.2"
definition dist_s :: real where "dist_s = 0.63"

subsection \<open>The body of \<open>define_geometry\<close>\<close>

text \<open>Each list below is a block of the function, one element for each statement.\<close>

definition plasma_parameters :: "(Geometry \<Rightarrow> error + Geometry) list" where
  "plasma_parameters =
     [\<lambda>g. Inr (g\<lparr>R := 1.5\<rparr>),
      \<lambda>g. Inr (g\<lparr>r_plasma := 0.4\<rparr>),
      \<lambda>g. Inr (g\<lparr>elon := 1\<rparr>)]"

definition primary_beamline :: "(Geometry \<Rightarrow> error + Geometry) list" where
  "primary_beamline =
     [\<lambda>g. Inr (g\<lparr>angles_dict := dict_update (angles_dict g) prim_angles\<rparr>),
      \<lambda>g. Inr (set_coord ''port_in'' (xport_in, yport_in, zport_in) g),
      add_coords_with ''A2'' ''port_in'' dist_A2 ''A2'',
      add_coords_with ''B2'' ''A2'' dist_B2 ''B2'',
      add_coords_with ''B1'' ''B2'' dist_B1 ''B1'',
      add_coords_with ''A1'' ''B1'' dist_A1 ''A1'',
      add_coords_with ''r0'' ''A1'' dist_r0 ''r0'']"

definition secondary_beamline :: "(Geometry \<Rightarrow> error + Geometry) list" where
  "secondary_beamline =
     [\<lambda>g. Inr (set_coord ''port_out'' (xport_out, yport_out, zport_out) g),
      \<lambda>g. Inr (g\<lparr>angles_dict := dict_update (angles_dict g) sec_angles\<rparr>),
      add_coords_with ''B3'' ''port_out'' dist_B3 ''A3'',
      add_coords_with ''aim'' ''B3'' (dist_A3 - 0.075) ''A3'',
      add_coords_with ''A3'' ''B3'' dist_A3 ''A3'',
      add_coords_with ''slit'' ''B3'' dist_s ''A3'',
      alias_coord ''an'' ''slit'']"

text \<open>
  The five \<open>print\<close> calls: what they write is not modelled, the dictionary lookups they make
  are.
\<close>

definition print_info :: "Geometry \<Rightarrow> error + Geometry" where
  "print_info g =
     bind_err (getitem (angles_dict g) ''r0'') (\<lambda>_.
     bind_err (getitem (angles_dict g) ''A3'') (\<lambda>_.
     bind_err (getitem (r_dict g) ''r0'') (\<lambda>_.
     bind_err (getitem (r_dict g) ''aim'') (\<lambda>_.
     bind_err (getitem (r_dict g) ''slit'') (\<lambda>_. Inr g)))))"

definition tj2_chamber :: "(Geometry \<Rightarrow> error + Geometry) list" where
  "tj2_chamber =
     [\<lambda>g. Inr (g\<lparr>chamb_ent := [(0.8, 0.5805), (1.1, 0.5805), (1.43, 0.5805), (1.8, 0.5805)]\<rparr>),
      \<lambda>g. Inr (g\<lparr>chamb_ext := [(1.89, - 0.28), (1.89, 0.0), (1.89, - 0.66), (1.89, - 0.9),
                                (1.58, - 0.52), (1.58, - 0.9)]\<rparr>),
      \<lambda>g. Inr (g\<lparr>chamb := [(1.415, - 0.07136), (1.4007, - 0.04931),
                            (1.4007, - 0.04931), (1.3919, - 0.02453),
                            (1.3919, - 0.02453), (1.389, 0.00162),
                            (1.389, 0.00162), (1.3925, 0.0277),
                            (1.3925, 0.0277), (1.4021, 0.05218),
                            (1.4021, 0.05218), (1.416, 0.07456),
                            (1.416, 0.07456), (1.4302, 0.09681),
                            (1.4302, 0.09681), (1.4443, 0.11909)]\<rparr>)]"

text \<open>
  The two tables: the camera contour from a file of a fixed name, the separatrix from
  \<open>'configs//' + config + '.txt'\<close>.
\<close>

definition load_camera :: "filesystem \<Rightarrow> Geometry \<Rightarrow> error + Geometry" where
  "load_camera fs g =
     bind_err (loadtxt fs ''TJII_camera.dat'') (\<lambda>t. Inr (g\<lparr>camera := t\<rparr>))"

definition load_sep :: "filesystem \<Rightarrow> string \<Rightarrow> Geometry \<Rightarrow> error + Geometry" where
  "load_sep fs config g =
     bind_err (loadtxt fs (''configs//'' @ config @ ''.txt'')) (\<lambda>t. Inr (g\<lparr>sep := t\<rparr>))"

text \<open>
  The last loop: \<open>for key in geom.r_dict.keys()\<close>, the array stored under the key is looked
  up and shifted in place, one component after the other.  The source adds \<open>0.0\<close> to each of
  the three components; the offset is a parameter here, and \<open>define_geometry\<close> passes the
  source's zeros.
\<close>

definition shift_array :: "vec3 \<Rightarrow> addr \<Rightarrow> vec3 list \<Rightarrow> vec3 list" where
  "shift_array off a st = st[a := vadd (st ! a) off]"

fun shift_keys :: "vec3 \<Rightarrow> string list \<Rightarrow> Geometry \<Rightarrow> error + Geometry" where
  "shift_keys off [] g = Inr g"
| "shift_keys off (key # ks) g =
     bind_err (getitem (r_dict g) key) (\<lambda>a.
       shift_keys off ks (g\<lparr>arrays := shift_array off a (arrays g)\<rparr>))"

definition shift_pass :: "vec3 \<Rightarrow> Geometry \<Rightarrow> error + Geometry" where
  "shift_pass off g = shift_keys off (keys (r_dict g)) g"

text \<open>
  The function in three parts: the statements before the tables are loaded (they do not
  depend on the argument), the function up to the last loop, and the whole function.
\<close>

definition construct :: "error + Geometry" where
  "construct =
     run_steps
       (plasma_parameters @ primary_beamline @ secondary_beamline @ [print_info] @ tj2_chamber)
       Geometry_init"

definition before_shift :: "filesystem \<Rightarrow> string \<Rightarrow> error + Geometry" where
  "before_shift fs config = bind_err construct (run_steps [load_camera fs, load_sep fs config])"

definition define_geometry :: "filesystem \<Rightarrow> string \<Rightarrow> error + Geometry" where
  "define_geometry fs config = bind_err (before_shift fs config) (shift_pass (0.0, 0.0, 0.0))"

text \<open>
  What the claims speak about.  A file can be loaded when it exists, can be read and has no
  malformed row; \<open>writes_of g name\<close> lists, in order, how the entries of \<open>name\<close> in the
  coordinate mapping were written.
\<close>

definition loadable :: "filesystem \<Rightarrow> string \<Rightarrow> bool" where
  "loadable fs fname =
     (case fs fname of
        None \<Rightarrow> False
      | Some Unreadable \<Rightarrow> False
      | Some (Text rows) \<Rightarrow> \<not> malformed rows)"

definition writes_of :: "Geometry \<Rightarrow> string \<Rightarrow> origin list" where
  "writes_of g name = map snd (filter (\<lambda>w. fst w = name) (written g))"

text \<open>
  Two file systems to run the function on: one with both tables, and one whose camera file
  has a row that is not numeric and that has no file for any configuration.
\<close>

definition example_fs :: filesystem where
  "example_fs =
     (\<lambda>p. None)
       (''TJII_camera.dat'' := Some (Text [[Number 1.2, Number 0.3], [Number 1.8, Number (- 0.3)]]),
        ''configs//100_44_64.txt'' := Some (Text [[Number 1.5, Number 0.1], [Number 1.6, Number 0]]))"

definition bad_camera_fs :: filesystem where
  "bad_camera_fs = (\<lambda>p. None)(''TJII_camera.dat'' := Some (Text [[Number 1.2, Garbage]]))"

section \<open>Properties\<close>

subsection \<open>Unfolding the blocks and the operations\<close>

lemmas blocks_defs = plasma_parameters_def primary_beamline_def secondary_beamline_def
  print_info_def tj2_chamber_def

lemmas ops_defs = bind_err_def getitem_def setitem_def add_coords_with_def add_coords_def
  set_coord_def alias_coord_def prim_angles_def sec_angles_def Geometry_init_def

subsection \<open>Directions are unit vectors\<close>

text \<open>
  Whatever the angles, the rotated axis has length one, so a point computed by
  \<open>add_coords\<close> lies at the distance \<open>\<bar>d\<bar>\<close> from its parent.
\<close>

lemma direction_unit:
  assumes "direction ang = (x, y, z)"
  shows "x\<^sup>2 + y\<^sup>2 + z\<^sup>2 = 1"
proof -
  obtain a b c where ang: "ang = (a, b, c)" by (cases ang)
  have "x = cos (rad a) * cos (rad b)" "y = sin (rad a)" "z = - (cos (rad a) * sin (rad b))"
    using assms by (simp_all add: ang)
  then have "x\<^sup>2 + y\<^sup>2 + z\<^sup>2 =
      (cos (rad a))\<^sup>2 * (cos (rad b))\<^sup>2 + (cos (rad a))\<^sup>2 * (sin (rad b))\<^sup>2 + (sin (rad a))\<^sup>2"
    by (simp add: power_mult_distrib)
  also have "\<dots> = (cos (rad a))\<^sup>2 * ((cos (rad b))\<^sup>2 + (sin (rad b))\<^sup>2) + (sin (rad a))\<^sup>2"
    by (simp only: distrib_left)
  also have "\<dots> = 1" by simp
  finally show ?thesis .
qed

lemma vdist_calc_vector: "vdist (vadd p (calc_vector d ang)) p = \<bar>d\<bar>"
proof -
  obtain px py pz where p: "p = (px, py, pz)" by (cases p)
  obtain x y z where dir: "direction ang = (x, y, z)" by (cases "direction ang")
  have u: "x\<^sup>2 + y\<^sup>2 + z\<^sup>2 = 1" using dir by (rule direction_unit)
  have "(d * x)\<^sup>2 + (d * y)\<^sup>2 + (d * z)\<^sup>2 = d\<^sup>2 * (x\<^sup>2 + y\<^sup>2 + z\<^sup>2)"
    by (simp add: power_mult_distrib algebra_simps)
  then have "(d * x)\<^sup>2 + (d * y)\<^sup>2 + (d * z)\<^sup>2 = d\<^sup>2" using u by simp
  then show ?thesis by (simp add: p calc_vector_def dir)
qed

subsection \<open>Blocks and the last loop\<close>

lemma vadd_zero: "vadd v (0, 0, 0) = v"
  by (cases v) simp

lemma shift_array_zero: "shift_array (0, 0, 0) a st = st"
  by (simp add: shift_array_def vadd_zero)

lemma shift_keys_zero:
  "list_all (\<lambda>k. map_of (r_dict g) k \<noteq> None) ks \<Longrightarrow> shift_keys (0, 0, 0) ks g = Inr g"
  by (induction ks) (auto simp: bind_err_def getitem_def shift_array_zero)

lemma keys_resolve: "list_all (\<lambda>k. map_of d k \<noteq> None) (keys d)"
  by (auto simp: keys_def list_all_iff weak_map_of_SomeI map_of_eq_None_iff)

lemma shift_pass_zero: "shift_pass (0, 0, 0) g = Inr g"
  unfolding shift_pass_def by (rule shift_keys_zero) (rule keys_resolve)

lemma shift_keys_frame:
  "shift_keys off ks g = Inr g' \<Longrightarrow> g' = g\<lparr>arrays := arrays g'\<rparr> \<and> length (arrays g') = length (arrays g)"
proof (induction ks arbitrary: g)
  case Nil
  then show ?case by simp
next
  case (Cons k ks)
  from Cons.prems obtain a where
    run: "shift_keys off ks (g\<lparr>arrays := shift_array off a (arrays g)\<rparr>) = Inr g'"
    by (auto simp: bind_err_def split: sum.splits)
  from Cons.IH [OF run] show ?case by (simp add: shift_array_def)
qed

subsection \<open>What the construction leaves in the object\<close>

lemma construct_total: "\<exists>g. construct = Inr g"
  by (simp add: construct_def blocks_defs ops_defs)

lemma define_geometry_unfold:
  assumes "construct = Inr g0"
  shows "define_geometry fs config =
     bind_err (loadtxt fs ''TJII_camera.dat'') (\<lambda>c.
     bind_err (loadtxt fs (''configs//'' @ config @ ''.txt'')) (\<lambda>s.
       Inr (g0\<lparr>camera := c, sep := s\<rparr>)))"
  by (simp add: define_geometry_def before_shift_def assms load_camera_def load_sep_def
      bind_err_def shift_pass_zero split: sum.splits)

lemma define_geometry_Inr:
  assumes "define_geometry fs config = Inr g"
  shows "\<exists>g0. construct = Inr g0 \<and> g = g0\<lparr>camera := camera g, sep := sep g\<rparr> \<and>
           loadtxt fs ''TJII_camera.dat'' = Inr (camera g) \<and>
           loadtxt fs (''configs//'' @ config @ ''.txt'') = Inr (sep g)"
proof -
  obtain g0 where c: "construct = Inr g0" using construct_total by blast
  from assms show ?thesis
    unfolding define_geometry_unfold [OF c]
    by (auto simp: bind_err_def c split: sum.splits)
qed

lemma construct_facts:
  assumes "construct = Inr g"
  shows "
     r_dict g = [(''port_in'', 0), (''A2'', 1), (''B2'', 2), (''B1'', 3), (''A1'', 4), (''r0'', 5),
                 (''port_out'', 6), (''B3'', 7), (''aim'', 8), (''A3'', 9), (''slit'', 10), (''an'', 10)] \<and>
     angles_dict g = prim_angles @ sec_angles \<and>
     written g =
       [(''port_in'', Direct),
        (''A2'', Derived ''port_in'' dist_A2 (alpha_prim, beta_prim, gamma_prim)),
        (''B2'', Derived ''A2'' dist_B2 (alpha_prim, beta_prim, gamma_prim)),
        (''B1'', Derived ''B2'' dist_B1 (alpha_prim, beta_prim, gamma_prim)),
        (''A1'', Derived ''B1'' dist_A1 (alpha_prim, beta_prim, gamma_prim)),
        (''r0'', Derived ''A1'' dist_r0 (alpha_prim, beta_prim, gamma_prim)),
        (''port_out'', Direct),
        (''B3'', Derived ''port_out'' dist_B3 (alpha_sec, beta_sec, gamma_sec)),
        (''aim'', Derived ''B3'' (dist_A3 - 0.075) (alpha_sec, beta_sec, gamma_sec)),
        (''A3'', Derived ''B3'' dist_A3 (alpha_sec, beta_sec, gamma_sec)),
        (''slit'', Derived ''B3'' dist_s (alpha_sec, beta_sec, gamma_sec)),
        (''an'', Direct)] \<and>
     length (arrays g) = 11 \<and>
     arrays g ! 0 = (xport_in, yport_in, zport_in) \<and>
     arrays g ! 1 = vadd (arrays g ! 0) (calc_vector dist_A2 (alpha_prim, beta_prim, gamma_prim)) \<and>
     arrays g ! 2 = vadd (arrays g ! 1) (calc_vector dist_B2 (alpha_prim, beta_prim, gamma_prim)) \<and>
     arrays g ! 3 = vadd (arrays g ! 2) (calc_vector dist_B1 (alpha_prim, beta_prim, gamma_prim)) \<and>
     arrays g ! 4 = vadd (arrays g ! 3) (calc_vector dist_A1 (alpha_prim, beta_prim, gamma_prim)) \<and>
     arrays g ! 5 = vadd (arrays g ! 4) (calc_vector dist_r0 (alpha_prim, beta_prim, gamma_prim)) \<and>
     arrays g ! 6 = (xport_out, yport_out, zport_out) \<and>
     arrays g ! 7 = vadd (arrays g ! 6) (calc_vector dist_B3 (alpha_sec, beta_sec, gamma_sec)) \<and>
     arrays g ! 8 = vadd (arrays g ! 7) (calc_vector (dist_A3 - 0.075) (alpha_sec, beta_sec, gamma_sec)) \<and>
     arrays g ! 9 = vadd (arrays g ! 7) (calc_vector dist_A3 (alpha_sec, beta_sec, gamma_sec)) \<and>
     arrays g ! 10 = vadd (arrays g ! 7) (calc_vector dist_s (alpha_sec, beta_sec, gamma_sec))"
  using assms by (auto simp: construct_def blocks_defs ops_defs)

lemma define_geometry_facts:
  assumes "define_geometry fs config = Inr g"
  shows "
     r_dict g = [(''port_in'', 0), (''A2'', 1), (''B2'', 2), (''B1'', 3), (''A1'', 4), (''r0'', 5),
                 (''port_out'', 6), (''B3'', 7), (''aim'', 8), (''A3'', 9), (''slit'', 10), (''an'', 10)] \<and>
     angles_dict g = prim_angles @ sec_angles \<and>
     written g =
       [(''port_in'', Direct),
        (''A2'', Derived ''port_in'' dist_A2 (alpha_prim, beta_prim, gamma_prim)),
        (''B2'', Derived ''A2'' dist_B2 (alpha_prim, beta_prim, gamma_prim)),
        (''B1'', Derived ''B2'' dist_B1 (alpha_prim, beta_prim, gamma_prim)),
        (''A1'', Derived ''B1'' dist_A1 (alpha_prim, beta_prim, gamma_prim)),
        (''r0'', Derived ''A1'' dist_r0 (alpha_prim, beta_prim, gamma_prim)),
        (''port_out'', Direct),
        (''B3'', Derived ''port_out'' dist_B3 (alpha_sec, beta_sec, gamma_sec)),
        (''aim'', Derived ''B3'' (dist_A3 - 0.075) (alpha_sec, beta_sec, gamma_sec)),
        (''A3'', Derived ''B3'' dist_A3 (alpha_sec, beta_sec, gamma_sec)),
        (''slit'', Derived ''B3'' dist_s (alpha_sec, beta_sec, gamma_sec)),
        (''an'', Direct)] \<and>
     length (arrays g) = 11 \<and>
     arrays g ! 0 = (xport_in, yport_in, zport_in) \<and>
     arrays g ! 1 = vadd (arrays g ! 0) (calc_vector dist_A2 (alpha_prim, beta_prim, gamma_prim)) \<and>
     arrays g ! 2 = vadd (arrays g ! 1) (calc_vector dist_B2 (alpha_prim, beta_prim, gamma_prim)) \<and>
     arrays g ! 3 = vadd (arrays g ! 2) (calc_vector dist_B1 (alpha_prim, beta_prim, gamma_prim)) \<and>
     arrays g ! 4 = vadd (arrays g ! 3) (calc_vector dist_A1 (alpha_prim, beta_prim, gamma_prim)) \<and>
     arrays g ! 5 = vadd (arrays g ! 4) (calc_vector dist_r0 (alpha_prim, beta_prim, gamma_prim)) \<and>
     arrays g ! 6 = (xport_out, yport_out, zport_out) \<and>
     arrays g ! 7 = vadd (arrays g ! 6) (calc_vector dist_B3 (alpha_sec, beta_sec, gamma_sec)) \<and>
     arrays g ! 8 = vadd (arrays g ! 7) (calc_vector (dist_A3 - 0.075) (alpha_sec, beta_sec, gamma_sec)) \<and>
     arrays g ! 9 = vadd (arrays g ! 7) (calc_vector dist_A3 (alpha_sec, beta_sec, gamma_sec)) \<and>
     arrays g ! 10 = vadd (arrays g ! 7) (calc_vector dist_s (alpha_sec, beta_sec, gamma_sec))"
proof -
  from define_geometry_Inr [OF assms] obtain g0 where
    c: "construct = Inr g0" and g: "g = g0\<lparr>camera := camera g, sep := sep g\<rparr>"
    by blast
  have "r_dict g = r_dict g0" "angles_dict g = angles_dict g0" "written g = written g0"
    "arrays g = arrays g0"
    by (subst g, simp)+
  then show ?thesis using construct_facts [OF c] by simp
qed

subsection \<open>A run on a concrete file system\<close>

lemma example_run: "\<exists>g. define_geometry example_fs ''100_44_64'' = Inr g"
proof -
  obtain g0 where c: "construct = Inr g0" using construct_total by blast
  show ?thesis
    unfolding define_geometry_unfold [OF c]
    by (simp add: example_fs_def loadtxt_def malformed_def bind_err_def)
qed

lemma coord_dist_derived:
  assumes "map_of (r_dict g) c = Some i" and "map_of (r_dict g) p = Some j"
    and "arrays g ! i = vadd (arrays g ! j) (calc_vector d ang)" and "0 \<le> d"
  shows "coord_dist g c p = Some d"
  using assms by (simp add: coord_dist_def coord_def vdist_calc_vector)

subsection \<open>Distances along the beamlines\<close>

text \<open>
  Claim C1.  In the Geometry that \<open>define_geometry\<close> returns, each coordinate computed by
  \<open>add_coords\<close> (A2, B2, B1, A1, r0 on the primary beamline; B3, aim, A3, slit on the
  secondary beamline) lies at a Euclidean distance from its parent that equals the distance
  passed to that call.  Over the reals the equality is exact.
\<close>

theorem derived_coordinate_distance:
  assumes "define_geometry fs config = Inr g"
  shows "coord_dist g ''A2'' ''port_in'' = Some dist_A2
     \<and> coord_dist g ''B2'' ''A2'' = Some dist_B2
     \<and> coord_dist g ''B1'' ''B2'' = Some dist_B1
     \<and> coord_dist g ''A1'' ''B1'' = Some dist_A1
     \<and> coord_dist g ''r0'' ''A1'' = Some dist_r0
     \<and> coord_dist g ''B3'' ''port_out'' = Some dist_B3
     \<and> coord_dist g ''aim'' ''B3'' = Some (dist_A3 - 0.075)
     \<and> coord_dist g ''A3'' ''B3'' = Some dist_A3
     \<and> coord_dist g ''slit'' ''B3'' = Some dist_s"
proof -
  note f = define_geometry_facts [OF assms]
  have rd: "r_dict g =
      [(''port_in'', 0), (''A2'', 1), (''B2'', 2), (''B1'', 3), (''A1'', 4), (''r0'', 5),
       (''port_out'', 6), (''B3'', 7), (''aim'', 8), (''A3'', 9), (''slit'', 10), (''an'', 10)]"
    using f by blast
  have d1: "coord_dist g ''A2'' ''port_in'' = Some dist_A2"
    by (rule coord_dist_derived [where i = 1 and j = 0 and ang = "(alpha_prim, beta_prim, gamma_prim)"])
       (use f in \<open>simp_all add: rd dist_A2_def\<close>)
  have d2: "coord_dist g ''B2'' ''A2'' = Some dist_B2"
    by (rule coord_dist_derived [where i = 2 and j = 1 and ang = "(alpha_prim, beta_prim, gamma_prim)"])
       (use f in \<open>simp_all add: rd dist_B2_def\<close>)
  have d3: "coord_dist g ''B1'' ''B2'' = Some dist_B1"
    by (rule coord_dist_derived [where i = 3 and j = 2 and ang = "(alpha_prim, beta_prim, gamma_prim)"])
       (use f in \<open>simp_all add: rd dist_B1_def\<close>)
  have d4: "coord_dist g ''A1'' ''B1'' = Some dist_A1"
    by (rule coord_dist_derived [where i = 4 and j = 3 and ang = "(alpha_prim, beta_prim, gamma_prim)"])
       (use f in \<open>simp_all add: rd dist_A1_def\<close>)
  have d5: "coord_dist g ''r0'' ''A1'' = Some dist_r0"
    by (rule coord_dist_derived [where i = 5 and j = 4 and ang = "(alpha_prim, beta_prim, gamma_prim)"])
       (use f in \<open>simp_all add: rd dist_r0_def\<close>)
  have d6: "coord_dist g ''B3'' ''port_out'' = Some dist_B3"
    by (rule coord_dist_derived [where i = 7 and j = 6 and ang = "(alpha_sec, beta_sec, gamma_sec)"])
       (use f in \<open>simp_all add: rd dist_B3_def\<close>)
  have d7: "coord_dist g ''aim'' ''B3'' = Some (dist_A3 - 0.075)"
    by (rule coord_dist_derived [where i = 8 and j = 7 and ang = "(alpha_sec, beta_sec, gamma_sec)"])
       (use f in \<open>simp_all add: rd dist_A3_def\<close>)
  have d8: "coord_dist g ''A3'' ''B3'' = Some dist_A3"
    by (rule coord_dist_derived [where i = 9 and j = 7 and ang = "(alpha_sec, beta_sec, gamma_sec)"])
       (use f in \<open>simp_all add: rd dist_A3_def\<close>)
  have d9: "coord_dist g ''slit'' ''B3'' = Some dist_s"
    by (rule coord_dist_derived [where i = 10 and j = 7 and ang = "(alpha_sec, beta_sec, gamma_sec)"])
       (use f in \<open>simp_all add: rd dist_s_def\<close>)
  from d1 d2 d3 d4 d5 d6 d7 d8 d9 show ?thesis by blast
qed

theorem derived_coordinate_distance_witness:
  "\<exists>g. define_geometry example_fs ''100_44_64'' = Inr g
     \<and> coord_dist g ''A2'' ''port_in'' = Some dist_A2
     \<and> coord_dist g ''B2'' ''A2'' = Some dist_B2
     \<and> coord_dist g ''B1'' ''B2'' = Some dist_B1
     \<and> coord_dist g ''A1'' ''B1'' = Some dist_A1
     \<and> coord_dist g ''r0'' ''A1'' = Some dist_r0
     \<and> coord_dist g ''B3'' ''port_out'' = Some dist_B3
     \<and> coord_dist g ''aim'' ''B3'' = Some (dist_A3 - 0.075)
     \<and> coord_dist g ''A3'' ''B3'' = Some dist_A3
     \<and> coord_dist g ''slit'' ''B3'' = Some dist_s"
proof -
  obtain g where run: "define_geometry example_fs ''100_44_64'' = Inr g"
    using example_run by blast
  from run derived_coordinate_distance [OF run] show ?thesis by blast
qed

subsection \<open>The parent chain\<close>

text \<open>
  Claim C2.  The coordinates are computed along the chains port_in, A2, B2, B1, A1, r0 and
  port_out, B3, aim/A3/slit: in the returned Geometry every listed coordinate is the
  coordinate of the named predecessor moved by its own distance along its beamline's
  direction, so r0 is port_in moved by the offsets of A2, B2, B1, A1 and r0 in turn.
\<close>

theorem coordinates_follow_parent_chain:
  assumes "define_geometry fs config = Inr g"
  shows "coord g ''port_in'' = Some (xport_in, yport_in, zport_in)
     \<and> coord g ''A2'' = map_option (\<lambda>p. vadd p (calc_vector dist_A2 (alpha_prim, beta_prim, gamma_prim)))
                           (coord g ''port_in'')
     \<and> coord g ''B2'' = map_option (\<lambda>p. vadd p (calc_vector dist_B2 (alpha_prim, beta_prim, gamma_prim)))
                           (coord g ''A2'')
     \<and> coord g ''B1'' = map_option (\<lambda>p. vadd p (calc_vector dist_B1 (alpha_prim, beta_prim, gamma_prim)))
                           (coord g ''B2'')
     \<and> coord g ''A1'' = map_option (\<lambda>p. vadd p (calc_vector dist_A1 (alpha_prim, beta_prim, gamma_prim)))
                           (coord g ''B1'')
     \<and> coord g ''r0'' = map_option (\<lambda>p. vadd p (calc_vector dist_r0 (alpha_prim, beta_prim, gamma_prim)))
                           (coord g ''A1'')
     \<and> coord g ''r0'' =
         Some (vadd (vadd (vadd (vadd (vadd (xport_in, yport_in, zport_in)
           (calc_vector dist_A2 (alpha_prim, beta_prim, gamma_prim)))
           (calc_vector dist_B2 (alpha_prim, beta_prim, gamma_prim)))
           (calc_vector dist_B1 (alpha_prim, beta_prim, gamma_prim)))
           (calc_vector dist_A1 (alpha_prim, beta_prim, gamma_prim)))
           (calc_vector dist_r0 (alpha_prim, beta_prim, gamma_prim)))
     \<and> coord g ''port_out'' = Some (xport_out, yport_out, zport_out)
     \<and> coord g ''B3'' = map_option (\<lambda>p. vadd p (calc_vector dist_B3 (alpha_sec, beta_sec, gamma_sec)))
                           (coord g ''port_out'')
     \<and> coord g ''aim'' = map_option (\<lambda>p. vadd p (calc_vector (dist_A3 - 0.075) (alpha_sec, beta_sec, gamma_sec)))
                           (coord g ''B3'')
     \<and> coord g ''A3'' = map_option (\<lambda>p. vadd p (calc_vector dist_A3 (alpha_sec, beta_sec, gamma_sec)))
                           (coord g ''B3'')
     \<and> coord g ''slit'' = map_option (\<lambda>p. vadd p (calc_vector dist_s (alpha_sec, beta_sec, gamma_sec)))
                           (coord g ''B3'')"
  using define_geometry_facts [OF assms] by (simp add: coord_def)

theorem coordinates_follow_parent_chain_witness:
  "\<exists>g. define_geometry example_fs ''100_44_64'' = Inr g
     \<and> coord g ''port_in'' = Some (xport_in, yport_in, zport_in)
     \<and> coord g ''A2'' = map_option (\<lambda>p. vadd p (calc_vector dist_A2 (alpha_prim, beta_prim, gamma_prim)))
                           (coord g ''port_in'')
     \<and> coord g ''B2'' = map_option (\<lambda>p. vadd p (calc_vector dist_B2 (alpha_prim, beta_prim, gamma_prim)))
                           (coord g ''A2'')
     \<and> coord g ''B1'' = map_option (\<lambda>p. vadd p (calc_vector dist_B1 (alpha_prim, beta_prim, gamma_prim)))
                           (coord g ''B2'')
     \<and> coord g ''A1'' = map_option (\<lambda>p. vadd p (calc_vector dist_A1 (alpha_prim, beta_prim, gamma_prim)))
                           (coord g ''B1'')
     \<and> coord g ''r0'' = map_option (\<lambda>p. vadd p (calc_vector dist_r0 (alpha_prim, beta_prim, gamma_prim)))
                           (coord g ''A1'')
     \<and> coord g ''r0'' =
         Some (vadd (vadd (vadd (vadd (vadd (xport_in, yport_in, zport_in)
           (calc_vector dist_A2 (alpha_prim, beta_prim, gamma_prim)))
           (calc_vector dist_B2 (alpha_prim, beta_prim, gamma_prim)))
           (calc_vector dist_B1 (alpha_prim, beta_prim, gamma_prim)))
           (calc_vector dist_A1 (alpha_prim, beta_prim, gamma_prim)))
           (calc_vector dist_r0 (alpha_prim, beta_prim, gamma_prim)))
     \<and> coord g ''port_out'' = Some (xport_out, yport_out, zport_out)
     \<and> coord g ''B3'' = map_option (\<lambda>p. vadd p (calc_vector dist_B3 (alpha_sec, beta_sec, gamma_sec)))
                           (coord g ''port_out'')
     \<and> coord g ''aim'' = map_option (\<lambda>p. vadd p (calc_vector (dist_A3 - 0.075) (alpha_sec, beta_sec, gamma_sec)))
                           (coord g ''B3'')
     \<and> coord g ''A3'' = map_option (\<lambda>p. vadd p (calc_vector dist_A3 (alpha_sec, beta_sec, gamma_sec)))
                           (coord g ''B3'')
     \<and> coord g ''slit'' = map_option (\<lambda>p. vadd p (calc_vector dist_s (alpha_sec, beta_sec, gamma_sec)))
                           (coord g ''B3'')"
proof -
  obtain g where run: "define_geometry example_fs ''100_44_64'' = Inr g"
    using example_run by blast
  from run coordinates_follow_parent_chain [OF run] show ?thesis by blast
qed

subsection \<open>Determinism\<close>

lemma loadtxt_cong: "fs1 p = fs2 p \<Longrightarrow> loadtxt fs1 p = loadtxt fs2 p"
  by (simp add: loadtxt_def)

text \<open>
  Claim C3.  \<open>define_geometry\<close> is deterministic: two calls with the same label, under file
  systems that hold the same two data files, give the same outcome, and when they return,
  the Geometry records have identical coordinates for every name.
\<close>

theorem define_geometry_deterministic:
  assumes "fs1 ''TJII_camera.dat'' = fs2 ''TJII_camera.dat''"
    and "fs1 (''configs//'' @ config @ ''.txt'') = fs2 (''configs//'' @ config @ ''.txt'')"
  shows "define_geometry fs1 config = define_geometry fs2 config
     \<and> (\<forall>g1 g2 name. define_geometry fs1 config = Inr g1 \<and> define_geometry fs2 config = Inr g2
           \<longrightarrow> coord g1 name = coord g2 name)"
proof -
  obtain g0 where c: "construct = Inr g0" using construct_total by blast
  have "define_geometry fs1 config = define_geometry fs2 config"
    unfolding define_geometry_unfold [OF c]
    by (simp only: loadtxt_cong [of fs1 _ fs2, OF assms(1)] loadtxt_cong [of fs1 _ fs2, OF assms(2)])
  then show ?thesis by auto
qed

theorem define_geometry_deterministic_witness:
  "example_fs ''TJII_camera.dat'' = (example_fs(''notes.txt'' := Some Unreadable)) ''TJII_camera.dat''
   \<and> example_fs (''configs//'' @ ''100_44_64'' @ ''.txt'')
       = (example_fs(''notes.txt'' := Some Unreadable)) (''configs//'' @ ''100_44_64'' @ ''.txt'')
   \<and> (\<exists>g1 g2. define_geometry example_fs ''100_44_64'' = Inr g1
         \<and> define_geometry (example_fs(''notes.txt'' := Some Unreadable)) ''100_44_64'' = Inr g2
         \<and> g1 = g2 \<and> coord g1 ''r0'' = coord g2 ''r0'')"
proof -
  define fs2 where "fs2 = example_fs(''notes.txt'' := Some Unreadable)"
  have a: "example_fs ''TJII_camera.dat'' = fs2 ''TJII_camera.dat''"
    by (simp add: fs2_def)
  have b: "example_fs (''configs//'' @ ''100_44_64'' @ ''.txt'')
       = fs2 (''configs//'' @ ''100_44_64'' @ ''.txt'')"
    by (simp add: fs2_def)
  obtain g where run: "define_geometry example_fs ''100_44_64'' = Inr g"
    using example_run by blast
  have eq: "define_geometry example_fs ''100_44_64'' = define_geometry fs2 ''100_44_64''"
    using define_geometry_deterministic [OF a b] by blast
  from run have run2: "define_geometry fs2 ''100_44_64'' = Inr g"
    unfolding eq .
  from a b run run2 show ?thesis
    unfolding fs2_def [symmetric] by blast
qed

subsection \<open>Angle triples\<close>

text \<open>
  Claim C5.  In the returned Geometry the angle triples of the primary-beamline elements
  r0, A1, B1, B2, A2 are one and the same triple, and so are those of the secondary-beamline
  elements aim, A3, B3, an.
\<close>

theorem angle_triples_grouped:
  assumes "define_geometry fs config = Inr g"
  shows "getitem (angles_dict g) ''r0'' = Inr (alpha_prim, beta_prim, gamma_prim)
     \<and> getitem (angles_dict g) ''A1'' = getitem (angles_dict g) ''r0''
     \<and> getitem (angles_dict g) ''B1'' = getitem (angles_dict g) ''r0''
     \<and> getitem (angles_dict g) ''B2'' = getitem (angles_dict g) ''r0''
     \<and> getitem (angles_dict g) ''A2'' = getitem (angles_dict g) ''r0''
     \<and> getitem (angles_dict g) ''aim'' = Inr (alpha_sec, beta_sec, gamma_sec)
     \<and> getitem (angles_dict g) ''A3'' = getitem (angles_dict g) ''aim''
     \<and> getitem (angles_dict g) ''B3'' = getitem (angles_dict g) ''aim''
     \<and> getitem (angles_dict g) ''an'' = getitem (angles_dict g) ''aim''"
  using define_geometry_facts [OF assms]
  by (simp add: getitem_def prim_angles_def sec_angles_def)

theorem angle_triples_grouped_witness:
  "\<exists>g. define_geometry example_fs ''100_44_64'' = Inr g
     \<and> getitem (angles_dict g) ''r0'' = Inr (alpha_prim, beta_prim, gamma_prim)
     \<and> getitem (angles_dict g) ''A1'' = getitem (angles_dict g) ''r0''
     \<and> getitem (angles_dict g) ''B1'' = getitem (angles_dict g) ''r0''
     \<and> getitem (angles_dict g) ''B2'' = getitem (angles_dict g) ''r0''
     \<and> getitem (angles_dict g) ''A2'' = getitem (angles_dict g) ''r0''
     \<and> getitem (angles_dict g) ''aim'' = Inr (alpha_sec, beta_sec, gamma_sec)
     \<and> getitem (angles_dict g) ''A3'' = getitem (angles_dict g) ''aim''
     \<and> getitem (angles_dict g) ''B3'' = getitem (angles_dict g) ''aim''
     \<and> getitem (angles_dict g) ''an'' = getitem (angles_dict g) ''aim''"
proof -
  obtain g where run: "define_geometry example_fs ''100_44_64'' = Inr g"
    using example_run by blast
  from run angle_triples_grouped [OF run] show ?thesis by blast
qed

subsection \<open>Lookups\<close>

text \<open>
  A lookup that comes before the store raises \<open>KeyError\<close> in the model: \<open>add_coords\<close> with
  a parent that is not stored yet, and a statement whose angle triple is not set yet.
\<close>

lemma lookup_before_store_raises:
  "add_coords ''A2'' ''port_in'' dist_A2 (alpha_prim, beta_prim, gamma_prim) Geometry_init
     = Inl (KeyError ''port_in'')"
  "add_coords_with ''A2'' ''port_in'' dist_A2 ''A2''
     (set_coord ''port_in'' (xport_in, yport_in, zport_in) Geometry_init) = Inl (KeyError ''A2'')"
  by (simp_all add: ops_defs)

lemma loadtxt_error:
  "loadtxt fs p = Inl e \<Longrightarrow> e = FileNotFoundError p \<or> e = PermissionError p \<or> e = ValueError p"
  by (auto simp: loadtxt_def split: option.splits datafile.splits if_splits)

text \<open>
  Claim C6.  Every lookup of a name in the angle mapping or in the coordinate mapping finds
  an entry stored before: the statements that build the beamlines run to the end, and no
  call of \<open>define_geometry\<close> ends in a \<open>KeyError\<close>.
\<close>

theorem lookups_resolve:
  "(\<exists>g. construct = Inr g) \<and> define_geometry fs config \<noteq> Inl (KeyError k)"
proof -
  obtain g0 where c: "construct = Inr g0" using construct_total by blast
  have "define_geometry fs config \<noteq> Inl (KeyError k)"
    unfolding define_geometry_unfold [OF c]
    by (auto simp: bind_err_def split: sum.splits dest: loadtxt_error)
  with c show ?thesis by blast
qed

subsection \<open>Failures\<close>

lemma define_geometry_before_shift: "define_geometry fs config = before_shift fs config"
  by (cases "before_shift fs config") (simp_all add: define_geometry_def bind_err_def shift_pass_zero)

lemma loadtxt_Inr_iff: "(\<exists>t. loadtxt fs p = Inr t) \<longleftrightarrow> loadable fs p"
  by (auto simp: loadtxt_def loadable_def split: option.splits datafile.splits)

lemma loadtxt_missing: "fs p = None \<Longrightarrow> loadtxt fs p = Inl (FileNotFoundError p)"
  by (simp add: loadtxt_def)

lemma define_geometry_populated:
  assumes "define_geometry fs config = Inr g"
  shows "R g = 1.5 \<and> r_plasma g = 0.4 \<and> elon g = 1
     \<and> length (chamb_ent g) = 4 \<and> length (chamb_ext g) = 6 \<and> length (chamb g) = 16"
proof -
  from define_geometry_Inr [OF assms] obtain g0 where
    c: "construct = Inr g0" and g: "g = g0\<lparr>camera := camera g, sep := sep g\<rparr>"
    by blast
  have "R g0 = 1.5 \<and> r_plasma g0 = 0.4 \<and> elon g0 = 1
     \<and> length (chamb_ent g0) = 4 \<and> length (chamb_ext g0) = 6 \<and> length (chamb g0) = 16"
    using c by (auto simp: construct_def blocks_defs ops_defs)
  moreover have "R g = R g0" "r_plasma g = r_plasma g0" "elon g = elon g0"
    "chamb_ent g = chamb_ent g0" "chamb_ext g = chamb_ext g0" "chamb g = chamb g0"
    by (subst g, simp)+
  ultimately show ?thesis by simp
qed

text \<open>
  Claim C4, as amended.  \<open>define_geometry\<close> returns a populated Geometry exactly when both
  data files can be loaded; otherwise it ends with the error of \<open>np.loadtxt\<close>, that of the
  camera file first, which nothing in the function catches.  With a label that has no file
  \<open>configs//<label>.txt\<close> the call always fails, and it fails with the file-not-found error
  of that file whenever the camera file could be loaded.
\<close>

theorem define_geometry_failure:
  "(define_geometry fs config = Inl e \<longleftrightarrow>
        loadtxt fs ''TJII_camera.dat'' = Inl e
      \<or> (loadable fs ''TJII_camera.dat'' \<and> loadtxt fs (''configs//'' @ config @ ''.txt'') = Inl e))
   \<and> ((\<exists>g. define_geometry fs config = Inr g) \<longleftrightarrow>
        loadable fs ''TJII_camera.dat'' \<and> loadable fs (''configs//'' @ config @ ''.txt''))
   \<and> (define_geometry fs config = Inr g \<longrightarrow>
        keys (r_dict g) = [''port_in'', ''A2'', ''B2'', ''B1'', ''A1'', ''r0'',
                           ''port_out'', ''B3'', ''aim'', ''A3'', ''slit'', ''an'']
      \<and> keys (angles_dict g) = [''r0'', ''A1'', ''B1'', ''B2'', ''A2'', ''aim'', ''A3'', ''B3'', ''an'']
      \<and> R g = 1.5 \<and> r_plasma g = 0.4 \<and> elon g = 1
      \<and> length (chamb_ent g) = 4 \<and> length (chamb_ext g) = 6 \<and> length (chamb g) = 16
      \<and> Inr (camera g) = loadtxt fs ''TJII_camera.dat''
      \<and> Inr (sep g) = loadtxt fs (''configs//'' @ config @ ''.txt''))
   \<and> (fs (''configs//'' @ config @ ''.txt'') = None \<longrightarrow> (\<exists>e'. define_geometry fs config = Inl e'))
   \<and> (loadable fs ''TJII_camera.dat'' \<and> fs (''configs//'' @ config @ ''.txt'') = None \<longrightarrow>
        define_geometry fs config = Inl (FileNotFoundError (''configs//'' @ config @ ''.txt'')))"
proof -
  let ?cam = "''TJII_camera.dat''" and ?sp = "''configs//'' @ config @ ''.txt''"
  obtain g0 where c: "construct = Inr g0" using construct_total by blast
  note u = define_geometry_unfold [OF c, of fs config]
  have 1: "define_geometry fs config = Inl e \<longleftrightarrow>
        loadtxt fs ?cam = Inl e \<or> (loadable fs ?cam \<and> loadtxt fs ?sp = Inl e)"
    unfolding u loadtxt_Inr_iff [symmetric]
    by (cases "loadtxt fs ?cam"; cases "loadtxt fs ?sp") (simp_all add: bind_err_def)
  have 2: "(\<exists>g. define_geometry fs config = Inr g) \<longleftrightarrow> loadable fs ?cam \<and> loadable fs ?sp"
    unfolding u loadtxt_Inr_iff [symmetric]
    by (cases "loadtxt fs ?cam"; cases "loadtxt fs ?sp") (simp_all add: bind_err_def)
  have 3: "define_geometry fs config = Inr g \<longrightarrow>
        keys (r_dict g) = [''port_in'', ''A2'', ''B2'', ''B1'', ''A1'', ''r0'',
                           ''port_out'', ''B3'', ''aim'', ''A3'', ''slit'', ''an'']
      \<and> keys (angles_dict g) = [''r0'', ''A1'', ''B1'', ''B2'', ''A2'', ''aim'', ''A3'', ''B3'', ''an'']
      \<and> R g = 1.5 \<and> r_plasma g = 0.4 \<and> elon g = 1
      \<and> length (chamb_ent g) = 4 \<and> length (chamb_ext g) = 6 \<and> length (chamb g) = 16
      \<and> Inr (camera g) = loadtxt fs ?cam \<and> Inr (sep g) = loadtxt fs ?sp"
  proof
    assume r: "define_geometry fs config = Inr g"
    from define_geometry_Inr [OF r]
    have l: "Inr (camera g) = loadtxt fs ?cam" "Inr (sep g) = loadtxt fs ?sp" by auto
    have k: "keys (r_dict g) = [''port_in'', ''A2'', ''B2'', ''B1'', ''A1'', ''r0'',
                           ''port_out'', ''B3'', ''aim'', ''A3'', ''slit'', ''an'']"
      "keys (angles_dict g) = [''r0'', ''A1'', ''B1'', ''B2'', ''A2'', ''aim'', ''A3'', ''B3'', ''an'']"
      using define_geometry_facts [OF r] by (simp_all add: keys_def prim_angles_def sec_angles_def)
    from l k define_geometry_populated [OF r] 
    show "keys (r_dict g) = [''port_in'', ''A2'', ''B2'', ''B1'', ''A1'', ''r0'',
                           ''port_out'', ''B3'', ''aim'', ''A3'', ''slit'', ''an'']
      \<and> keys (angles_dict g) = [''r0'', ''A1'', ''B1'', ''B2'', ''A2'', ''aim'', ''A3'', ''B3'', ''an'']
      \<and> R g = 1.5 \<and> r_plasma g = 0.4 \<and> elon g = 1
      \<and> length (chamb_ent g) = 4 \<and> length (chamb_ext g) = 6 \<and> length (chamb g) = 16
      \<and> Inr (camera g) = loadtxt fs ?cam \<and> Inr (sep g) = loadtxt fs ?sp"
      by blast
  qed
  have 4: "fs ?sp = None \<longrightarrow> (\<exists>e'. define_geometry fs config = Inl e')"
    unfolding u
    by (cases "loadtxt fs ?cam") (auto simp: bind_err_def dest: loadtxt_missing)
  have 5: "loadable fs ?cam \<and> fs ?sp = None \<longrightarrow>
        define_geometry fs config = Inl (FileNotFoundError ?sp)"
    unfolding u loadtxt_Inr_iff [symmetric]
    by (auto simp: bind_err_def dest: loadtxt_missing)
  from 1 2 3 4 5 show ?thesis by blast
qed

theorem define_geometry_failure_witness:
  "loadable example_fs ''TJII_camera.dat''
   \<and> example_fs (''configs//'' @ ''no_such_label'' @ ''.txt'') = None
   \<and> define_geometry example_fs ''no_such_label''
       = Inl (FileNotFoundError (''configs//'' @ ''no_such_label'' @ ''.txt''))
   \<and> (\<exists>g. define_geometry example_fs ''100_44_64'' = Inr g)"
proof -
  have a: "loadable example_fs ''TJII_camera.dat''"
    by (simp add: loadable_def example_fs_def malformed_def)
  have b: "example_fs (''configs//'' @ ''no_such_label'' @ ''.txt'') = None"
    by (simp add: example_fs_def)
  have c: "loadable example_fs (''configs//'' @ ''100_44_64'' @ ''.txt'')"
    by (simp add: loadable_def example_fs_def malformed_def)
  from a b define_geometry_failure [of example_fs "''no_such_label''"]
  have "define_geometry example_fs ''no_such_label''
       = Inl (FileNotFoundError (''configs//'' @ ''no_such_label'' @ ''.txt''))"
    by blast
  moreover from a c define_geometry_failure [of example_fs "''100_44_64''"]
  have "\<exists>g. define_geometry example_fs ''100_44_64'' = Inr g"
    by blast
  ultimately show ?thesis using a b by blast
qed

text \<open>
  The claim as stated promises a file-not-found condition for every label without a file.
  The camera file is read first: when it has a malformed row, the call ends with the
  \<open>ValueError\<close> of the camera file, although the label's file is missing.
\<close>

theorem missing_config_bad_camera_counterexample:
  "bad_camera_fs (''configs//'' @ ''100_44_64'' @ ''.txt'') = None
   \<and> define_geometry bad_camera_fs ''100_44_64'' = Inl (ValueError ''TJII_camera.dat'')
   \<and> (\<forall>p. define_geometry bad_camera_fs ''100_44_64'' \<noteq> Inl (FileNotFoundError p))"
proof -
  obtain g0 where c: "construct = Inr g0" using construct_total by blast
  have "define_geometry bad_camera_fs ''100_44_64'' = Inl (ValueError ''TJII_camera.dat'')"
    unfolding define_geometry_unfold [OF c]
    by (simp add: bad_camera_fs_def loadtxt_def malformed_def bind_err_def)
  then show ?thesis by (simp add: bad_camera_fs_def)
qed

subsection \<open>The last loop\<close>

lemma shift_keys_total:
  "list_all (\<lambda>k. map_of (r_dict g) k \<noteq> None) ks \<Longrightarrow> \<exists>g'. shift_keys off ks g = Inr g'"
proof (induction ks arbitrary: g)
  case Nil
  then show ?case by simp
next
  case (Cons k ks)
  from Cons.prems obtain a where a: "map_of (r_dict g) k = Some a" by auto
  let ?g = "g\<lparr>arrays := shift_array off a (arrays g)\<rparr>"
  from Cons.prems have "list_all (\<lambda>k. map_of (r_dict ?g) k \<noteq> None) ks" by simp
  from Cons.IH [OF this] show ?case by (simp add: bind_err_def getitem_def a)
qed

lemma shift_pass_total: "\<exists>g'. shift_pass off g = Inr g'"
  unfolding shift_pass_def by (rule shift_keys_total) (rule keys_resolve)

lemma shift_pass_frame: "shift_pass off g = Inr g' \<Longrightarrow> g' = g\<lparr>arrays := arrays g'\<rparr>"
  unfolding shift_pass_def by (drule shift_keys_frame) simp

text \<open>
  Claim C7.  The last loop adds a constant offset to the stored coordinates; the offset of the
  source is (0, 0, 0), so the loop returns the Geometry it was given, with every coordinate
  and every other field unchanged, and \<open>define_geometry\<close> returns what it had built before
  the loop.  Whatever the offset, the loop changes nothing but the stored arrays.
\<close>

theorem final_pass_changes_nothing:
  "shift_pass (0.0, 0.0, 0.0) g = Inr g
   \<and> define_geometry fs config = before_shift fs config
   \<and> (shift_pass off g = Inr g' \<longrightarrow> g' = g\<lparr>arrays := arrays g'\<rparr>)"
proof -
  have "shift_pass (0.0, 0.0, 0.0) g = Inr g" using shift_pass_zero [of g] by simp
  then show ?thesis
    using define_geometry_before_shift [of fs config] shift_pass_frame [of off g g'] by blast
qed

theorem final_pass_changes_nothing_witness:
  "\<exists>g g'. define_geometry example_fs ''100_44_64'' = Inr g
     \<and> shift_pass (0.0025, 0.05, 0.0) g = Inr g'
     \<and> g' = g\<lparr>arrays := arrays g'\<rparr>
     \<and> shift_pass (0.0, 0.0, 0.0) g = Inr g
     \<and> before_shift example_fs ''100_44_64'' = Inr g"
proof -
  obtain g where run: "define_geometry example_fs ''100_44_64'' = Inr g"
    using example_run by blast
  obtain g' where pass: "shift_pass (0.0025, 0.05, 0.0) g = Inr g'"
    using shift_pass_total by blast
  note t = final_pass_changes_nothing [of g example_fs "''100_44_64''" "(0.0025, 0.05, 0.0)" g']
  from t pass have 1: "g' = g\<lparr>arrays := arrays g'\<rparr>" by blast
  from t have 2: "shift_pass (0.0, 0.0, 0.0) g = Inr g" by blast
  from t run have 3: "before_shift example_fs ''100_44_64'' = Inr g" by metis
  from run pass 1 2 3 show ?thesis by blast
qed

subsection \<open>The files read\<close>

text \<open>
  Claim C8.  The camera contour is what \<open>np.loadtxt\<close> reads from the file of the fixed name
  \<open>TJII_camera.dat\<close>, the separatrix contour what it reads from \<open>configs//<label>.txt\<close>,
  where the label is the argument; no other file has any influence on the outcome.
\<close>

theorem contour_files:
  "(define_geometry fs config = Inr g \<longrightarrow>
        loadtxt fs ''TJII_camera.dat'' = Inr (camera g)
      \<and> loadtxt fs (''configs//'' @ config @ ''.txt'') = Inr (sep g))
   \<and> (p \<noteq> ''TJII_camera.dat'' \<and> p \<noteq> ''configs//'' @ config @ ''.txt'' \<longrightarrow>
        define_geometry (fs(p := f)) config = define_geometry fs config)"
proof -
  obtain g0 where c: "construct = Inr g0" using construct_total by blast
  have 1: "define_geometry fs config = Inr g \<longrightarrow>
        loadtxt fs ''TJII_camera.dat'' = Inr (camera g)
      \<and> loadtxt fs (''configs//'' @ config @ ''.txt'') = Inr (sep g)"
    using define_geometry_Inr [of fs config g] by blast
  have 2: "p \<noteq> ''TJII_camera.dat'' \<and> p \<noteq> ''configs//'' @ config @ ''.txt'' \<longrightarrow>
        define_geometry (fs(p := f)) config = define_geometry fs config"
  proof
    assume ne: "p \<noteq> ''TJII_camera.dat'' \<and> p \<noteq> ''configs//'' @ config @ ''.txt''"
    have a: "(fs(p := f)) ''TJII_camera.dat'' = fs ''TJII_camera.dat''"
      using ne by auto
    have b: "(fs(p := f)) (''configs//'' @ config @ ''.txt'') = fs (''configs//'' @ config @ ''.txt'')"
      using ne by auto
    show "define_geometry (fs(p := f)) config = define_geometry fs config"
      unfolding define_geometry_unfold [OF c]
      by (simp only: loadtxt_cong [of "fs(p := f)" _ fs, OF a] loadtxt_cong [of "fs(p := f)" _ fs, OF b])
  qed
  from 1 2 show ?thesis by blast
qed

theorem contour_files_witness:
  "\<exists>g. define_geometry example_fs ''100_44_64'' = Inr g
     \<and> loadtxt example_fs ''TJII_camera.dat'' = Inr (camera g)
     \<and> loadtxt example_fs (''configs//'' @ ''100_44_64'' @ ''.txt'') = Inr (sep g)
     \<and> camera g = [[1.2, 0.3], [1.8, - 0.3]]
     \<and> sep g = [[1.5, 0.1], [1.6, 0]]
     \<and> ''notes.txt'' \<noteq> ''TJII_camera.dat''
     \<and> ''notes.txt'' \<noteq> ''configs//'' @ ''100_44_64'' @ ''.txt''
     \<and> define_geometry (example_fs(''notes.txt'' := Some Unreadable)) ''100_44_64''
         = define_geometry example_fs ''100_44_64''"
proof -
  obtain g where run: "define_geometry example_fs ''100_44_64'' = Inr g"
    using example_run by blast
  note t = contour_files [of example_fs "''100_44_64''" g "''notes.txt''" "Some Unreadable"]
  from t run have l: "loadtxt example_fs ''TJII_camera.dat'' = Inr (camera g)"
    "loadtxt example_fs (''configs//'' @ ''100_44_64'' @ ''.txt'') = Inr (sep g)"
    by blast+
  have cam: "camera g = [[1.2, 0.3], [1.8, - 0.3]]"
    using l(1) by (simp add: loadtxt_def example_fs_def malformed_def)
  have sp: "sep g = [[1.5, 0.1], [1.6, 0]]"
    using l(2) by (simp add: loadtxt_def example_fs_def malformed_def)
  have ne: "''notes.txt'' \<noteq> ''TJII_camera.dat''"
    "''notes.txt'' \<noteq> ''configs//'' @ ''100_44_64'' @ ''.txt''"
    by simp_all
  from t ne have "define_geometry (example_fs(''notes.txt'' := Some Unreadable)) ''100_44_64''
         = define_geometry example_fs ''100_44_64''"
    by blast
  with run l cam sp ne show ?thesis by blast
qed

subsection \<open>How the coordinates are written\<close>

text \<open>
  Claim C9, as amended.  The returned Geometry stores twelve coordinates.  Nine of them (A2,
  B2, B1, A1, r0, B3, aim, A3, slit) are written once, by \<open>add_coords\<close>, from one named
  parent, a distance and an angle triple.  The other three are assigned directly: the two
  ports, and \<open>an\<close>.
\<close>

theorem coordinates_derived_except_ports_and_an:
  assumes "define_geometry fs config = Inr g"
  shows "keys (r_dict g) = [''port_in'', ''A2'', ''B2'', ''B1'', ''A1'', ''r0'',
                            ''port_out'', ''B3'', ''aim'', ''A3'', ''slit'', ''an'']
     \<and> writes_of g ''A2'' = [Derived ''port_in'' dist_A2 (alpha_prim, beta_prim, gamma_prim)]
     \<and> writes_of g ''B2'' = [Derived ''A2'' dist_B2 (alpha_prim, beta_prim, gamma_prim)]
     \<and> writes_of g ''B1'' = [Derived ''B2'' dist_B1 (alpha_prim, beta_prim, gamma_prim)]
     \<and> writes_of g ''A1'' = [Derived ''B1'' dist_A1 (alpha_prim, beta_prim, gamma_prim)]
     \<and> writes_of g ''r0'' = [Derived ''A1'' dist_r0 (alpha_prim, beta_prim, gamma_prim)]
     \<and> writes_of g ''B3'' = [Derived ''port_out'' dist_B3 (alpha_sec, beta_sec, gamma_sec)]
     \<and> writes_of g ''aim'' = [Derived ''B3'' (dist_A3 - 0.075) (alpha_sec, beta_sec, gamma_sec)]
     \<and> writes_of g ''A3'' = [Derived ''B3'' dist_A3 (alpha_sec, beta_sec, gamma_sec)]
     \<and> writes_of g ''slit'' = [Derived ''B3'' dist_s (alpha_sec, beta_sec, gamma_sec)]
     \<and> writes_of g ''port_in'' = [Direct]
     \<and> writes_of g ''port_out'' = [Direct]
     \<and> writes_of g ''an'' = [Direct]"
  using define_geometry_facts [OF assms] by (simp add: keys_def writes_of_def)

theorem coordinates_derived_except_ports_and_an_witness:
  "\<exists>g. define_geometry example_fs ''100_44_64'' = Inr g
     \<and> keys (r_dict g) = [''port_in'', ''A2'', ''B2'', ''B1'', ''A1'', ''r0'',
                            ''port_out'', ''B3'', ''aim'', ''A3'', ''slit'', ''an'']
     \<and> writes_of g ''A2'' = [Derived ''port_in'' dist_A2 (alpha_prim, beta_prim, gamma_prim)]
     \<and> writes_of g ''slit'' = [Derived ''B3'' dist_s (alpha_sec, beta_sec, gamma_sec)]
     \<and> writes_of g ''port_in'' = [Direct]
     \<and> writes_of g ''port_out'' = [Direct]
     \<and> writes_of g ''an'' = [Direct]"
proof -
  obtain g where run: "define_geometry example_fs ''100_44_64'' = Inr g"
    using example_run by blast
  from run coordinates_derived_except_ports_and_an [OF run] show ?thesis by blast
qed

text \<open>
  The claim as stated allows a direct assignment only for the two ports and the first
  reference point.  The entry \<open>an\<close> is stored, it is neither a port nor the first entry of
  the mapping nor the first point of the trajectory, and it is assigned directly: no call of
  \<open>add_coords\<close> writes it.
\<close>

theorem an_set_directly_counterexample:
  "\<exists>g. define_geometry example_fs ''100_44_64'' = Inr g
     \<and> ''an'' \<in> set (keys (r_dict g))
     \<and> ''an'' \<notin> {''port_in'', ''port_out'', ''r0''}
     \<and> hd (keys (r_dict g)) = ''port_in''
     \<and> writes_of g ''an'' = [Direct]
     \<and> (\<forall>parent d angles. writes_of g ''an'' \<noteq> [Derived parent d angles])"
proof -
  obtain g where run: "define_geometry example_fs ''100_44_64'' = Inr g"
    using example_run by blast
  have "''an'' \<in> set (keys (r_dict g))" "hd (keys (r_dict g)) = ''port_in''"
    "writes_of g ''an'' = [Direct]"
    using define_geometry_facts [OF run] by (simp_all add: keys_def writes_of_def)
  moreover have "''an'' \<notin> {''port_in'', ''port_out'', ''r0''}" by simp
  ultimately show ?thesis using run by auto
qed

subsection \<open>The analyzer point\<close>

lemma shift_pass_r_dict: "shift_pass off g = Inr g' \<Longrightarrow> r_dict g' = r_dict g"
  by (drule shift_pass_frame) (erule ssubst, simp)

text \<open>
  Claim C10.  In the returned Geometry the coordinate stored under \<open>an\<close> equals the one
  stored under \<open>slit\<close>: the entry is assigned directly, it is the very array of \<open>slit\<close>,
  and the two are equal after the last loop, whatever offset the loop adds.
\<close>

theorem an_is_slit:
  assumes "define_geometry fs config = Inr g"
  shows "coord g ''an'' = coord g ''slit''
     \<and> coord g ''slit'' =
         Some (vadd (vadd (xport_out, yport_out, zport_out)
           (calc_vector dist_B3 (alpha_sec, beta_sec, gamma_sec)))
           (calc_vector dist_s (alpha_sec, beta_sec, gamma_sec)))
     \<and> getitem (r_dict g) ''an'' = getitem (r_dict g) ''slit''
     \<and> writes_of g ''an'' = [Direct]
     \<and> (\<forall>off g0 g'. before_shift fs config = Inr g0 \<and> shift_pass off g0 = Inr g'
           \<longrightarrow> coord g' ''an'' = coord g' ''slit'')"
proof -
  note f = define_geometry_facts [OF assms]
  have 1: "coord g ''an'' = coord g ''slit''" using f by (simp add: coord_def)
  have 2: "coord g ''slit'' =
         Some (vadd (vadd (xport_out, yport_out, zport_out)
           (calc_vector dist_B3 (alpha_sec, beta_sec, gamma_sec)))
           (calc_vector dist_s (alpha_sec, beta_sec, gamma_sec)))"
    using f by (simp add: coord_def)
  have 3: "getitem (r_dict g) ''an'' = getitem (r_dict g) ''slit''"
    using f by (simp add: getitem_def)
  have 4: "writes_of g ''an'' = [Direct]" using f by (simp add: writes_of_def)
  have 5: "coord g' ''an'' = coord g' ''slit''"
    if "before_shift fs config = Inr g0 \<and> shift_pass off g0 = Inr g'" for off g0 g'
  proof -
    from that have "define_geometry fs config = Inr g0"
      by (simp add: define_geometry_before_shift)
    from define_geometry_facts [OF this] have "map_of (r_dict g0) ''an'' = map_of (r_dict g0) ''slit''"
      by simp
    moreover from that have "r_dict g' = r_dict g0" by (blast dest: shift_pass_r_dict)
    ultimately show ?thesis by (simp add: coord_def)
  qed
  from 1 2 3 4 5 show ?thesis by blast
qed

theorem an_is_slit_witness:
  "\<exists>g g'. define_geometry example_fs ''100_44_64'' = Inr g
     \<and> coord g ''an'' = coord g ''slit''
     \<and> coord g ''slit'' =
         Some (vadd (vadd (xport_out, yport_out, zport_out)
           (calc_vector dist_B3 (alpha_sec, beta_sec, gamma_sec)))
           (calc_vector dist_s (alpha_sec, beta_sec, gamma_sec)))
     \<and> getitem (r_dict g) ''an'' = Inr 10
     \<and> getitem (r_dict g) ''slit'' = Inr 10
     \<and> writes_of g ''an'' = [Direct]
     \<and> before_shift example_fs ''100_44_64'' = Inr g
     \<and> shift_pass (0.0025, 0.05, 0.0) g = Inr g'
     \<and> coord g' ''an'' = coord g' ''slit''"
proof -
  obtain g where run: "define_geometry example_fs ''100_44_64'' = Inr g"
    using example_run by blast
  obtain g' where pass: "shift_pass (0.0025, 0.05, 0.0) g = Inr g'"
    using shift_pass_total by blast
  have b: "before_shift example_fs ''100_44_64'' = Inr g"
    using run by (simp add: define_geometry_before_shift)
  have a: "getitem (r_dict g) ''an'' = Inr 10" "getitem (r_dict g) ''slit'' = Inr 10"
    using define_geometry_facts [OF run] by (simp_all add: getitem_def)
  note t = an_is_slit [OF run]
  from t b pass have "coord g' ''an'' = coord g' ''slit''" by blast
  with t run a b pass show ?thesis by blast
qed

text \<open>
  The loop visits the array that \<open>slit\<close> and \<open>an\<close> share once for each of the two names:
  an offset reaches it twice, and every array with one name once.  With the zeros of the
  source the two cannot be told apart.
\<close>

lemma shared_array_shifted_twice:
  assumes "define_geometry fs config = Inr g" and "shift_pass off g = Inr g'"
  shows "coord g' ''r0'' = map_option (\<lambda>v. vadd v off) (coord g ''r0'')
     \<and> coord g' ''slit'' = map_option (\<lambda>v. vadd (vadd v off) off) (coord g ''slit'')
     \<and> coord g' ''an'' = coord g' ''slit''"
proof -
  note f = define_geometry_facts [OF assms(1)]
  have rd: "r_dict g = [(''port_in'', 0), (''A2'', 1), (''B2'', 2), (''B1'', 3), (''A1'', 4), (''r0'', 5),
       (''port_out'', 6), (''B3'', 7), (''aim'', 8), (''A3'', 9), (''slit'', 10), (''an'', 10)]"
    and len: "length (arrays g) = 11"
    using f by blast+
  from assms(2) have rd': "r_dict g' = r_dict g" by (rule shift_pass_r_dict)
  from assms(2) have "arrays g' ! 5 = vadd (arrays g ! 5) off
      \<and> arrays g' ! 10 = vadd (vadd (arrays g ! 10) off) off"
    by (auto simp add: shift_pass_def keys_def rd bind_err_def getitem_def shift_array_def len)
  then show ?thesis by (simp add: coord_def rd rd')
qed

end
